theory Spec2Isabelle
  imports Main
begin

section \<open>The transcript tool: data model\<close>

text \<open>
  The source file \<^verbatim>\<open>src/tools/transcript.ts\<close> defines two entry points of the
  fetch-cache-classify pipeline: \<^verbatim>\<open>getTranscriptHandler\<close>, which returns a tool result
  with an error flag, and \<^verbatim>\<open>getTranscript\<close>, which returns the text or throws.
  Both are asynchronous functions; every \<^verbatim>\<open>await\<close> either yields a value or throws,
  which the embedding writes as a sum type with the thrown error on the left.

  A thrown value is an \<^verbatim>\<open>Error\<close> object, of which the code reads the fields
  \<^verbatim>\<open>name\<close> and \<^verbatim>\<open>message\<close>. \<^verbatim>\<open>new Error(m)\<close> is \<open>JsError ''Error'' m\<close>.
\<close>

datatype js_error = JsError (name: string) (message: string)

text \<open>The value returned by the handler: \<^verbatim>\<open>{content: [{type, text}], isError}\<close>.\<close>

record content_item =
  type :: string
  text' :: string

record tool_result =
  content :: "content_item list"
  isError :: bool

text \<open>The handler's argument \<^verbatim>\<open>{url: string; language?: string}\<close>.\<close>

record handler_input =
  url :: string
  language :: "string option"

text \<open>
  The worker environment \<^verbatim>\<open>env\<close>. The code only tests the two bindings for
  truthiness, so each is kept as the boolean the test sees.
\<close>

record env =
  TRANSCRIPT_KV :: bool
  TRANSCRIPT_CACHE :: bool

text \<open>
  What one invocation does to the outside world, in program order: the calls to the
  imported collaborators with their arguments, and the console output. A detached call
  (\<^verbatim>\<open>f(...).catch(h)\<close>) is recorded where it is started; the output of its rejection
  handler is recorded right behind it, although the runtime may run it at any later time.
\<close>

datatype console_arg = Str string | Obj js_error

datatype event =
    CallTrackDailyRequests
  | CallIncrementVideoRequestCount string
  | CallLogAnalyticsError string bool string
  | CallGetCachedTranscript string string
  | CallFetchTranscriptFromYouTube string string
  | CallSetCachedTranscript string string string bool
  | ConsoleLog string
  | ConsoleWarn string
  | ConsoleError "console_arg list"

text \<open>
  The imported functions (\<^verbatim>\<open>utils/url-normalize\<close>, \<^verbatim>\<open>utils/cache\<close>,
  \<^verbatim>\<open>lib/youtube\<close>, \<^verbatim>\<open>utils/analytics\<close>) are parameters of the pipeline. \<open>'st\<close> is the
  state of the transcript store.
  \<^item> The URL utilities and the error classifier are synchronous and pure.
  \<^item> \<^verbatim>\<open>getCachedTranscript\<close> resolves to a string or \<^verbatim>\<open>null\<close>, or rejects.
  \<^item> \<^verbatim>\<open>setCachedTranscript\<close> resolves or rejects, and leaves a store behind in
    either case.
  \<^item> \<^verbatim>\<open>fetchTranscriptFromYouTube\<close> resolves to the transcript text or rejects.
  \<^item> The three counters are only ever started detached; all that the pipeline can
    observe of them is whether their promise rejects (\<open>Some err\<close>) or not. They keep
    their numbers outside the transcript entries of the store.
\<close>

record 'st deps =
  isValidYouTubeUrl :: "string \<Rightarrow> bool"
  normalizeYouTubeUrl :: "string \<Rightarrow> string"
  extractVideoId :: "string \<Rightarrow> string option"
  getCachedTranscript :: "env \<Rightarrow> 'st \<Rightarrow> string \<Rightarrow> string \<Rightarrow> js_error + string option"
  setCachedTranscript ::
    "env \<Rightarrow> 'st \<Rightarrow> string \<Rightarrow> string \<Rightarrow> string \<Rightarrow> bool \<Rightarrow> js_error option \<times> 'st"
  fetchTranscriptFromYouTube :: "string \<Rightarrow> string \<Rightarrow> js_error + string"
  handleYouTubeErrors :: "js_error \<Rightarrow> string"
  trackDailyRequests :: "env \<Rightarrow> js_error option"
  incrementVideoRequestCount :: "env \<Rightarrow> string \<Rightarrow> js_error option"
  logAnalyticsError :: "env \<Rightarrow> string \<Rightarrow> bool \<Rightarrow> string \<Rightarrow> js_error option"

text \<open>How a \<^verbatim>\<open>try\<close> block ends: it runs to its end, returns from the function, or throws.\<close>

datatype 'a completion = Fallthrough | Return 'a | Throw js_error

section \<open>String tests of JavaScript\<close>

text \<open>\<^verbatim>\<open>s.startsWith(p)\<close> and \<^verbatim>\<open>s.includes(p)\<close>.\<close>

fun startsWith :: "string \<Rightarrow> string \<Rightarrow> bool" where
  "startsWith s [] = True"
| "startsWith [] (p # ps) = False"
| "startsWith (c # cs) (p # ps) = (c = p \<and> startsWith cs ps)"

fun includes' :: "string \<Rightarrow> string \<Rightarrow> bool" where
  "includes' [] p = startsWith [] p"
| "includes' (c # cs) p = (startsWith (c # cs) p \<or> includes' cs p)"

text \<open>
  Truthiness of a value of type \<^verbatim>\<open>string | null\<close>: \<^verbatim>\<open>null\<close> and the empty string
  are falsy.
\<close>

fun truthy :: "string option \<Rightarrow> bool" where
  "truthy None = False"
| "truthy (Some s) = (s \<noteq> [])"

text \<open>
  The default of an omitted \<^verbatim>\<open>language\<close> (\<^verbatim>\<open>language = 'en'\<close> in line 43 and in
  line 199); an omitted argument is \<open>None\<close>.
\<close>

definition language_default :: "string option \<Rightarrow> string" where
  "language_default l = (case l of None \<Rightarrow> ''en'' | Some x \<Rightarrow> x)"

text \<open>A detached promise with a rejection handler that logs.\<close>

definition catch_detached :: "js_error option \<Rightarrow> (js_error \<Rightarrow> event) \<Rightarrow> event list" where
  "catch_detached outcome h = (case outcome of None \<Rightarrow> [] | Some err \<Rightarrow> [h err])"

section \<open>getTranscriptHandler\<close>

text \<open>The heuristic of lines 90-93, on a cached string.\<close>

definition isLikelyError :: "string \<Rightarrow> bool" where
  "isLikelyError cachedData =
     (startsWith cachedData ''Error:'' \<or>
      startsWith cachedData ''No transcript'' \<or>
      startsWith cachedData ''Service temporarily busy'' \<or>
      startsWith cachedData ''Video not found'')"

text \<open>The result literal \<^verbatim>\<open>{content: [{type: 'text', text: t}], isError: b}\<close>.\<close>

definition text_result :: "string \<Rightarrow> bool \<Rightarrow> tool_result" where
  "text_result t b = \<lparr>content = [\<lparr>type = ''text'', text' = t\<rparr>], isError = b\<rparr>"

text \<open>Lines 74-77: the two counters, started only when \<^verbatim>\<open>env.TRANSCRIPT_KV\<close> is set.\<close>

definition handler_track :: "'st deps \<Rightarrow> env \<Rightarrow> string \<Rightarrow> event list" where
  "handler_track d e videoId =
     (if TRANSCRIPT_KV e then
        [CallTrackDailyRequests]
        @ catch_detached (trackDailyRequests d e) (\<lambda>err. ConsoleError [Obj err])
        @ [CallIncrementVideoRequestCount videoId]
        @ catch_detached (incrementVideoRequestCount d e videoId) (\<lambda>err. ConsoleError [Obj err])
      else [])"

text \<open>Lines 82-98: the body of the first \<^verbatim>\<open>try\<close>.\<close>

definition handler_try_cache ::
  "'st deps \<Rightarrow> env \<Rightarrow> 'st \<Rightarrow> string \<Rightarrow> string \<Rightarrow> tool_result completion \<times> event list" where
  "handler_try_cache d e st videoId lang =
     (case getCachedTranscript d e st videoId lang of
        Inl cacheError \<Rightarrow> (Throw cacheError, [CallGetCachedTranscript videoId lang])
      | Inr cachedData \<Rightarrow>
          (case cachedData of
             None \<Rightarrow> (Fallthrough, [CallGetCachedTranscript videoId lang])
           | Some s \<Rightarrow>
               if truthy cachedData then
                 (Return (text_result s (isLikelyError s)),
                  [CallGetCachedTranscript videoId lang,
                   ConsoleLog (''Cache hit for '' @ videoId @ '' (lang: '' @ lang @ '')'')])
               else (Fallthrough, [CallGetCachedTranscript videoId lang])))"

text \<open>Lines 99-102: the \<^verbatim>\<open>catch\<close> of the first \<^verbatim>\<open>try\<close> logs and goes on.\<close>

definition handler_catch_cache ::
  "string \<Rightarrow> tool_result completion \<times> event list \<Rightarrow> tool_result completion \<times> event list" where
  "handler_catch_cache videoId r =
     (case r of
        (Throw cacheError, evs) \<Rightarrow>
          (Fallthrough,
           evs @ [ConsoleError [Str (''Cache read error for '' @ videoId @ '': '' @ message cacheError)]])
      | (c, evs) \<Rightarrow> (c, evs))"

text \<open>Lines 105-115: the fetch, with its \<^verbatim>\<open>catch\<close>. Returns \<^verbatim>\<open>transcriptText\<close> and \<^verbatim>\<open>fetchError\<close>.\<close>

definition handler_fetch :: "'st deps \<Rightarrow> string \<Rightarrow> string \<Rightarrow> string \<times> bool \<times> event list" where
  "handler_fetch d videoId lang =
     (case fetchTranscriptFromYouTube d videoId lang of
        Inr t \<Rightarrow> (t, False, [CallFetchTranscriptFromYouTube videoId lang])
      | Inl err \<Rightarrow>
          (handleYouTubeErrors d err, True,
           [CallFetchTranscriptFromYouTube videoId lang,
            ConsoleError [Str (''Fetching transcript for '' @ videoId @ '' failed: '' @ message err)]]))"

text \<open>Lines 118-124: the cache write, with its \<^verbatim>\<open>catch\<close>.\<close>

definition handler_cache_write ::
  "'st deps \<Rightarrow> env \<Rightarrow> 'st \<Rightarrow> string \<Rightarrow> string \<Rightarrow> string \<Rightarrow> bool \<Rightarrow> 'st \<times> event list" where
  "handler_cache_write d e st videoId lang transcriptText fetchError =
     (case setCachedTranscript d e st videoId lang transcriptText fetchError of
        (None, st') \<Rightarrow> (st', [CallSetCachedTranscript videoId lang transcriptText fetchError])
      | (Some cacheError, st') \<Rightarrow>
          (st',
           [CallSetCachedTranscript videoId lang transcriptText fetchError,
            ConsoleError [Str (''Cache write error for '' @ videoId @ '': '' @ message cacheError)]]))"

text \<open>Lines 104-133: what follows the cache check when it did not return.\<close>

definition handler_miss ::
  "'st deps \<Rightarrow> env \<Rightarrow> 'st \<Rightarrow> string \<Rightarrow> string \<Rightarrow> (js_error + tool_result) \<times> 'st \<times> event list" where
  "handler_miss d e st videoId lang =
     (case handler_fetch d videoId lang of
        (transcriptText, fetchError, evs4) \<Rightarrow>
          (case handler_cache_write d e st videoId lang transcriptText fetchError of
             (st', evs5) \<Rightarrow>
               (Inr (text_result transcriptText fetchError), st',
                [ConsoleLog (''Cache miss for '' @ videoId @ '' (lang: '' @ lang
                   @ ''). Fetching from YouTube...'')] @ evs4 @ evs5)))"

text \<open>
  The whole handler (lines 42-134). The result is the value returned (\<open>Inr\<close>) or the
  exception that leaves the function (\<open>Inl\<close>), the store afterwards, and the events of
  this invocation.
\<close>

definition getTranscriptHandler ::
  "'st deps \<Rightarrow> handler_input \<Rightarrow> env \<Rightarrow> 'st \<Rightarrow> (js_error + tool_result) \<times> 'st \<times> event list" where
  "getTranscriptHandler d input e st =
     (let lang = language_default (language input) in
      if \<not> isValidYouTubeUrl d (url input) then
        (Inr (text_result ''Error: Invalid YouTube URL provided.'' True), st, [])
      else
        let normalizedUrl = normalizeYouTubeUrl d (url input);
            videoId = extractVideoId d normalizedUrl
        in if \<not> truthy videoId then
             (Inr (text_result ''Error: Could not extract video ID from the URL.'' True), st, [])
           else
             (case videoId of
                None \<Rightarrow>
                  (Inr (text_result ''Error: Could not extract video ID from the URL.'' True), st, [])
              | Some vid \<Rightarrow>
                  let evs6 = handler_track d e vid in
                  (case handler_catch_cache vid (handler_try_cache d e st vid lang) of
                     (Return r, evs3) \<Rightarrow> (Inr r, st, evs6 @ evs3)
                   | (Throw err, evs3) \<Rightarrow> (Inl err, st, evs6 @ evs3)
                   | (Fallthrough, evs3) \<Rightarrow>
                       (case handler_miss d e st vid lang of
                          (res, st', evs) \<Rightarrow> (res, st', evs6 @ evs3 @ evs)))))"

section \<open>getTranscript\<close>

text \<open>The test of lines 227-231, on a cached string.\<close>

definition isCachedError :: "string \<Rightarrow> bool" where
  "isCachedError cachedData =
     (startsWith cachedData ''Error:'' \<or>
      includes' cachedData ''No transcript available'' \<or>
      includes' cachedData ''Service temporarily busy'' \<or>
      includes' cachedData ''Video not found or private'' \<or>
      includes' cachedData ''Transcripts are disabled'')"

text \<open>Lines 214-219: the two counters, started only when \<^verbatim>\<open>env.TRANSCRIPT_CACHE\<close> is set.\<close>

definition track :: "'st deps \<Rightarrow> env \<Rightarrow> string \<Rightarrow> event list" where
  "track d e videoId =
     (if TRANSCRIPT_CACHE e then
        [CallTrackDailyRequests]
        @ catch_detached (trackDailyRequests d e)
            (\<lambda>err. ConsoleError [Str ''Failed to track daily requests:'', Obj err])
        @ [CallIncrementVideoRequestCount videoId]
        @ catch_detached (incrementVideoRequestCount d e videoId)
            (\<lambda>err. ConsoleError [Str ''Failed to increment video request count:'', Obj err])
      else
        [ConsoleWarn ''TRANSCRIPT_CACHE not available for analytics tracking in getTranscript.''])"

text \<open>Lines 223-236: the body of the first \<^verbatim>\<open>try\<close>. The \<^verbatim>\<open>throw\<close> of line 233 is inside it.\<close>

definition try_cache ::
  "'st deps \<Rightarrow> env \<Rightarrow> 'st \<Rightarrow> string \<Rightarrow> string \<Rightarrow> string completion \<times> event list" where
  "try_cache d e st videoId lang =
     (case getCachedTranscript d e st videoId lang of
        Inl cacheError \<Rightarrow> (Throw cacheError, [CallGetCachedTranscript videoId lang])
      | Inr cachedData \<Rightarrow>
          (case cachedData of
             None \<Rightarrow> (Fallthrough, [CallGetCachedTranscript videoId lang])
           | Some s \<Rightarrow>
               if truthy cachedData then
                 (if isCachedError s then Throw (JsError ''Error'' s) else Return s,
                  [CallGetCachedTranscript videoId lang,
                   ConsoleLog (''Cache hit for '' @ videoId @ '' (lang: '' @ lang @ '')'')])
               else (Fallthrough, [CallGetCachedTranscript videoId lang])))"

text \<open>
  Lines 237-242: the \<^verbatim>\<open>catch\<close> of the first \<^verbatim>\<open>try\<close>. It receives whatever the block
  threw, the rejection of the read and the error of line 233 alike.
\<close>

definition catch_cache ::
  "string \<Rightarrow> string \<Rightarrow> string completion \<times> event list \<Rightarrow> string completion \<times> event list" where
  "catch_cache videoId lang r =
     (case r of
        (Throw cacheError, evs) \<Rightarrow>
          if startsWith (message cacheError) ''Error:'' then (Throw cacheError, evs)
          else
            (Fallthrough,
             evs @ [ConsoleError [Str (''Cache read error for '' @ videoId @ '' (lang: '' @ lang
                      @ ''): '' @ message cacheError @ ''. Proceeding to fetch.'')]])
      | (c, evs) \<Rightarrow> (c, evs))"

text \<open>Lines 245-261: the fetch. Returns \<^verbatim>\<open>transcriptText\<close> and \<^verbatim>\<open>fetchWasSuccessful\<close>.\<close>

definition fetch :: "'st deps \<Rightarrow> env \<Rightarrow> string \<Rightarrow> string \<Rightarrow> string \<times> bool \<times> event list" where
  "fetch d e videoId lang =
     (case fetchTranscriptFromYouTube d videoId lang of
        Inr t \<Rightarrow> (t, True, [CallFetchTranscriptFromYouTube videoId lang])
      | Inl err \<Rightarrow>
          (handleYouTubeErrors d err, False,
           [CallFetchTranscriptFromYouTube videoId lang,
            ConsoleError [Str (''Fetching transcript for '' @ videoId @ '' (lang: '' @ lang
              @ '') failed: '' @ message err)]]
           @ (if TRANSCRIPT_CACHE e then
                let errorName =
                      (if name err \<noteq> [] \<and> name err \<noteq> ''Error'' then name err else ''FetchError'')
                in [CallLogAnalyticsError videoId False errorName]
                   @ catch_detached (logAnalyticsError d e videoId False errorName)
                       (\<lambda>x. ConsoleError [Str ''Failed to log analytics error:'', Obj x])
              else [])))"

text \<open>Lines 264-270: the cache write, guarded by \<^verbatim>\<open>env.TRANSCRIPT_CACHE\<close>.\<close>

definition cache_write ::
  "'st deps \<Rightarrow> env \<Rightarrow> 'st \<Rightarrow> string \<Rightarrow> string \<Rightarrow> string \<Rightarrow> bool \<Rightarrow> 'st \<times> event list" where
  "cache_write d e st videoId lang transcriptText fetchWasSuccessful =
     (if TRANSCRIPT_CACHE e then
        (case setCachedTranscript d e st videoId lang transcriptText (\<not> fetchWasSuccessful) of
           (None, st') \<Rightarrow>
             (st', [CallSetCachedTranscript videoId lang transcriptText (\<not> fetchWasSuccessful)])
         | (Some cacheWriteError, st') \<Rightarrow>
             (st',
              [CallSetCachedTranscript videoId lang transcriptText (\<not> fetchWasSuccessful),
               ConsoleError [Str (''Cache write error for '' @ videoId @ '' (lang: '' @ lang
                 @ ''): '' @ message cacheWriteError)]]))
      else (st, []))"

text \<open>Lines 244-277: what follows the cache check when it neither returned nor threw.\<close>

definition miss ::
  "'st deps \<Rightarrow> env \<Rightarrow> 'st \<Rightarrow> string \<Rightarrow> string \<Rightarrow> (js_error + string) \<times> 'st \<times> event list" where
  "miss d e st videoId lang =
     (case fetch d e videoId lang of
        (transcriptText, fetchWasSuccessful, evs4) \<Rightarrow>
          (case cache_write d e st videoId lang transcriptText fetchWasSuccessful of
             (st', evs5) \<Rightarrow>
               (if \<not> fetchWasSuccessful then Inl (JsError ''Error'' transcriptText)
                else Inr transcriptText,
                st',
                [ConsoleLog (''Cache miss for '' @ videoId @ '' (lang: '' @ lang
                   @ ''). Fetching from YouTube...'')] @ evs4 @ evs5)))"

text \<open>
  The whole of \<^verbatim>\<open>getTranscript(url, env, language = 'en')\<close> (lines 199-278); an omitted
  \<^verbatim>\<open>language\<close> is \<open>None\<close>.
\<close>

definition getTranscript ::
  "'st deps \<Rightarrow> string \<Rightarrow> env \<Rightarrow> string option \<Rightarrow> 'st \<Rightarrow> (js_error + string) \<times> 'st \<times> event list" where
  "getTranscript d u e language_arg st =
     (let lang = language_default language_arg in
      if \<not> isValidYouTubeUrl d u then
        (Inl (JsError ''Error'' ''Invalid YouTube URL provided.''), st, [])
      else
        let normalizedUrl = normalizeYouTubeUrl d u;
            videoId = extractVideoId d normalizedUrl
        in if \<not> truthy videoId then
             (Inl (JsError ''Error'' ''Could not extract video ID from the URL.''), st, [])
           else
             (case videoId of
                None \<Rightarrow> (Inl (JsError ''Error'' ''Could not extract video ID from the URL.''), st, [])
              | Some vid \<Rightarrow>
                  let evs2 = track d e vid in
                  (case catch_cache vid lang (try_cache d e st vid lang) of
                     (Return t, evs3) \<Rightarrow> (Inr t, st, evs2 @ evs3)
                   | (Throw err, evs3) \<Rightarrow> (Inl err, st, evs2 @ evs3)
                   | (Fallthrough, evs3) \<Rightarrow>
                       (case miss d e st vid lang of
                          (res, st', evs) \<Rightarrow> (res, st', evs2 @ evs3 @ evs)))))"

section \<open>Observations on a run\<close>

text \<open>The calls of one kind among the events of a run.\<close>

fun is_fetch_call :: "event \<Rightarrow> bool" where
  "is_fetch_call (CallFetchTranscriptFromYouTube v l) = True"
| "is_fetch_call ev = False"

fun is_cache_write :: "event \<Rightarrow> bool" where
  "is_cache_write (CallSetCachedTranscript v l t b) = True"
| "is_cache_write ev = False"

fun is_cache_read :: "event \<Rightarrow> bool" where
  "is_cache_read (CallGetCachedTranscript v l) = True"
| "is_cache_read ev = False"

definition fetch_calls :: "event list \<Rightarrow> event list" where
  "fetch_calls evs = filter is_fetch_call evs"

definition cache_writes :: "event list \<Rightarrow> event list" where
  "cache_writes evs = filter is_cache_write evs"

definition pipeline_calls :: "event list \<Rightarrow> event list" where
  "pipeline_calls evs = filter (\<lambda>ev. is_cache_read ev \<or> is_fetch_call ev \<or> is_cache_write ev) evs"

text \<open>
  The outcome of the fetch as both functions compute it: the text, and whether the fetch
  failed. On failure the text is what \<^verbatim>\<open>handleYouTubeErrors\<close> makes of the error.
\<close>

definition fetch_outcome :: "'st deps \<Rightarrow> string \<Rightarrow> string \<Rightarrow> string \<times> bool" where
  "fetch_outcome d vid lang =
     (case fetchTranscriptFromYouTube d vid lang of
        Inr t \<Rightarrow> (t, False)
      | Inl err \<Rightarrow> (handleYouTubeErrors d err, True))"

section \<open>The collaborators that the source imports\<close>

text \<open>
  Modelled from the spec: the Result Cache (\<^verbatim>\<open>utils/cache\<close>, whose functions
  \<^verbatim>\<open>getCachedTranscript\<close> and \<^verbatim>\<open>setCachedTranscript\<close> are imported but not part of
  the source at hand). The spec describes it as a map from (video identifier, language) to
  the stored text, with \<open>get(id, lang) -> text | absent\<close> a read without side effects and
  \<open>set(id, lang, text, isError)\<close> persisting the outcome. The error flag only selects the
  retention time, and the passing of time is not part of this model. Here neither
  operation faults.
\<close>

type_synonym kv = "string \<times> string \<Rightarrow> string option"

definition kv_get :: "env \<Rightarrow> kv \<Rightarrow> string \<Rightarrow> string \<Rightarrow> js_error + string option" where
  "kv_get e st videoId lang = Inr (st (videoId, lang))"

definition kv_set ::
  "env \<Rightarrow> kv \<Rightarrow> string \<Rightarrow> string \<Rightarrow> string \<Rightarrow> bool \<Rightarrow> js_error option \<times> kv" where
  "kv_set e st videoId lang t isErr = (None, st((videoId, lang) \<mapsto> t))"

text \<open>
  Modelled from the spec: the URL Identifier (\<^verbatim>\<open>utils/url-normalize\<close>, imported but not
  part of the source at hand). The spec says that \<open>normalize\<close> rewrites the known alternate
  forms (short links, embed links, query-parameter variants) into one canonical shape, that
  \<open>extractId\<close> pulls the identifier token from the canonical form, that \<open>isValid\<close> is a
  structural test under which \<open>extractId\<close> after \<open>normalize\<close> is never empty, and that
  \<^verbatim>\<open>https://youtu.be/abc123\<close> has the identifier \<^verbatim>\<open>abc123\<close>. The canonical shape is
  taken to be the watch link; the identifier token ends at the first separator.
\<close>

fun strip_prefix :: "string \<Rightarrow> string \<Rightarrow> string option" where
  "strip_prefix [] s = Some s"
| "strip_prefix (p # ps) [] = None"
| "strip_prefix (p # ps) (c # cs) = (if p = c then strip_prefix ps cs else None)"

definition id_token :: "string \<Rightarrow> string" where
  "id_token s = takeWhile (\<lambda>c. c \<notin> set ''?&#/'') s"

definition canonical_prefix :: string where
  "canonical_prefix = ''https://www.youtube.com/watch?v=''"

definition url_normalize :: "string \<Rightarrow> string" where
  "url_normalize u =
     (case strip_prefix ''https://youtu.be/'' u of
        Some r \<Rightarrow> canonical_prefix @ id_token r
      | None \<Rightarrow>
          (case strip_prefix ''https://www.youtube.com/embed/'' u of
             Some r \<Rightarrow> canonical_prefix @ id_token r
           | None \<Rightarrow>
               (case strip_prefix canonical_prefix u of
                  Some r \<Rightarrow> canonical_prefix @ id_token r
                | None \<Rightarrow> u)))"

definition url_extractId :: "string \<Rightarrow> string option" where
  "url_extractId n =
     (case strip_prefix canonical_prefix n of
        Some r \<Rightarrow> if id_token r = [] then None else Some (id_token r)
      | None \<Rightarrow> None)"

definition url_isValid :: "string \<Rightarrow> bool" where
  "url_isValid u = (url_extractId (url_normalize u) \<noteq> None)"

text \<open>
  A set of collaborators to run the two functions on: the store and the URL Identifier
  above, counters that never reject, and a fetcher \<open>f\<close> and an error classifier \<open>h\<close> of
  one's choice.
\<close>

definition spec_deps ::
  "(string \<Rightarrow> string \<Rightarrow> js_error + string) \<Rightarrow> (js_error \<Rightarrow> string) \<Rightarrow> kv deps" where
  "spec_deps f h =
     \<lparr>isValidYouTubeUrl = url_isValid,
      normalizeYouTubeUrl = url_normalize,
      extractVideoId = url_extractId,
      getCachedTranscript = kv_get,
      setCachedTranscript = kv_set,
      fetchTranscriptFromYouTube = f,
      handleYouTubeErrors = h,
      trackDailyRequests = (\<lambda>e. None),
      incrementVideoRequestCount = (\<lambda>e v. None),
      logAnalyticsError = (\<lambda>e v b n. None)\<rparr>"

text \<open>A classifier to run examples with: the generic fallback, marker and raw message.\<close>

definition generic_classifier :: "js_error \<Rightarrow> string" where
  "generic_classifier err = ''Error: '' @ message err"

text \<open>An environment with both bindings, and one with neither.\<close>

definition env_bound :: env where
  "env_bound = \<lparr>TRANSCRIPT_KV = True, TRANSCRIPT_CACHE = True\<rparr>"

definition env_unbound :: env where
  "env_unbound = \<lparr>TRANSCRIPT_KV = False, TRANSCRIPT_CACHE = False\<rparr>"

section \<open>Runs to compute with\<close>

text \<open>
  Outcomes of collaborators for concrete runs: a counter that rejects; fetchers that
  resolve, and one that rejects with a named error; a cache write that rejects and leaves
  the store as it was; cache reads that resolve to \<^verbatim>\<open>null\<close> or reject, with and without
  the \<^verbatim>\<open>Error:\<close> marker in the message.
\<close>

definition rejecting :: "js_error option" where
  "rejecting = Some (JsError ''Error'' ''KV unavailable'')"

definition fetch_hello :: "string \<Rightarrow> string \<Rightarrow> js_error + string" where
  "fetch_hello videoId lang = Inr ''Hello world.''"

definition fetch_fresh :: "string \<Rightarrow> string \<Rightarrow> js_error + string" where
  "fetch_fresh videoId lang = Inr ''A fresh transcript.''"

definition fetch_disabled :: "string \<Rightarrow> string \<Rightarrow> js_error + string" where
  "fetch_disabled videoId lang = Inl (JsError ''TranscriptsDisabled'' ''captions are off'')"





text \<open>
  Stores that hold one entry under (\<^verbatim>\<open>abc123\<close>, \<^verbatim>\<open>en\<close>): a transcript, the empty string,
  and an error message without the marker.
\<close>

definition kv_hello :: kv where
  "kv_hello = [(''abc123'', ''en'') \<mapsto> ''Hello world.'']"

definition kv_empty_text :: kv where
  "kv_empty_text = [(''abc123'', ''en'') \<mapsto> '''']"

definition kv_no_transcript :: kv where
  "kv_no_transcript = [(''abc123'', ''en'') \<mapsto> ''No transcript available for this video.'']"

section \<open>Lookups that both functions read alike\<close>

text \<open>
  The outcomes of the cache read on which the cache checks of the two functions come to
  the same verdict: a rejection whose message lacks the marker (both go on to fetch),
  \<^verbatim>\<open>null\<close> or the empty string (both go on to fetch), a string that starts with the
  marker (both report it as an error), and a string that neither \<open>isLikelyError\<close> nor
  \<open>isCachedError\<close> matches (both return it).
\<close>

definition classified_alike :: "js_error + string option \<Rightarrow> bool" where
  "classified_alike r =
     (case r of
        Inl cacheError \<Rightarrow> \<not> startsWith (message cacheError) ''Error:''
      | Inr None \<Rightarrow> True
      | Inr (Some s) \<Rightarrow>
          s = [] \<or> startsWith s ''Error:'' \<or> \<not> (isLikelyError s \<or> isCachedError s))"

section \<open>The steps of the two functions\<close>

lemma handler_invalid:
  "\<not> isValidYouTubeUrl d (url input) \<Longrightarrow>
   getTranscriptHandler d input e st =
     (Inr (text_result ''Error: Invalid YouTube URL provided.'' True), st, [])"
  by (simp add: getTranscriptHandler_def)

lemma getTranscript_invalid:
  "\<not> isValidYouTubeUrl d u \<Longrightarrow>
   getTranscript d u e l st = (Inl (JsError ''Error'' ''Invalid YouTube URL provided.''), st, [])"
  by (simp add: getTranscript_def)

lemma handler_no_id:
  "isValidYouTubeUrl d (url input) \<Longrightarrow>
   \<not> truthy (extractVideoId d (normalizeYouTubeUrl d (url input))) \<Longrightarrow>
   getTranscriptHandler d input e st =
     (Inr (text_result ''Error: Could not extract video ID from the URL.'' True), st, [])"
  by (simp add: getTranscriptHandler_def Let_def)

lemma getTranscript_no_id:
  "isValidYouTubeUrl d u \<Longrightarrow>
   \<not> truthy (extractVideoId d (normalizeYouTubeUrl d u)) \<Longrightarrow>
   getTranscript d u e l st =
     (Inl (JsError ''Error'' ''Could not extract video ID from the URL.''), st, [])"
  by (simp add: getTranscript_def Let_def)

lemma handler_valid:
  assumes "isValidYouTubeUrl d (url input)"
    and "extractVideoId d (normalizeYouTubeUrl d (url input)) = Some vid"
    and "vid \<noteq> []"
  shows "getTranscriptHandler d input e st =
     (case handler_catch_cache vid (handler_try_cache d e st vid (language_default (language input))) of
        (Return r, evs3) \<Rightarrow> (Inr r, st, handler_track d e vid @ evs3)
      | (Throw err, evs3) \<Rightarrow> (Inl err, st, handler_track d e vid @ evs3)
      | (Fallthrough, evs3) \<Rightarrow>
          (case handler_miss d e st vid (language_default (language input)) of
             (res, st', evs) \<Rightarrow> (res, st', handler_track d e vid @ evs3 @ evs)))"
  using assms by (simp add: getTranscriptHandler_def Let_def)

lemma getTranscript_valid:
  assumes "isValidYouTubeUrl d u"
    and "extractVideoId d (normalizeYouTubeUrl d u) = Some vid"
    and "vid \<noteq> []"
  shows "getTranscript d u e l st =
     (case catch_cache vid (language_default l) (try_cache d e st vid (language_default l)) of
        (Return t, evs3) \<Rightarrow> (Inr t, st, track d e vid @ evs3)
      | (Throw err, evs3) \<Rightarrow> (Inl err, st, track d e vid @ evs3)
      | (Fallthrough, evs3) \<Rightarrow>
          (case miss d e st vid (language_default l) of
             (res, st', evs) \<Rightarrow> (res, st', track d e vid @ evs3 @ evs)))"
  using assms by (simp add: getTranscript_def Let_def)

text \<open>The cache check of the handler, by the outcome of the read.\<close>

lemma handler_check_hit:
  "getCachedTranscript d e st vid lang = Inr (Some s) \<Longrightarrow> s \<noteq> [] \<Longrightarrow>
   handler_catch_cache vid (handler_try_cache d e st vid lang) =
     (Return (text_result s (isLikelyError s)),
      [CallGetCachedTranscript vid lang,
       ConsoleLog (''Cache hit for '' @ vid @ '' (lang: '' @ lang @ '')'')])"
  by (simp add: handler_catch_cache_def handler_try_cache_def)

lemma handler_check_absent:
  "getCachedTranscript d e st vid lang = Inr c \<Longrightarrow> \<not> truthy c \<Longrightarrow>
   handler_catch_cache vid (handler_try_cache d e st vid lang) =
     (Fallthrough, [CallGetCachedTranscript vid lang])"
  by (cases c) (simp_all add: handler_catch_cache_def handler_try_cache_def)

lemma handler_check_fault:
  "getCachedTranscript d e st vid lang = Inl cacheError \<Longrightarrow>
   handler_catch_cache vid (handler_try_cache d e st vid lang) =
     (Fallthrough,
      [CallGetCachedTranscript vid lang,
       ConsoleError [Str (''Cache read error for '' @ vid @ '': '' @ message cacheError)]])"
  by (simp add: handler_catch_cache_def handler_try_cache_def)

lemma handler_check_never_throws:
  "fst (handler_catch_cache vid (handler_try_cache d e st vid lang)) \<noteq> Throw err"
  by (simp add: handler_catch_cache_def handler_try_cache_def
      split: sum.splits option.splits)

text \<open>The cache check of getTranscript, by the outcome of the read.\<close>

lemma check_hit_success:
  "getCachedTranscript d e st vid lang = Inr (Some s) \<Longrightarrow> s \<noteq> [] \<Longrightarrow> \<not> isCachedError s \<Longrightarrow>
   catch_cache vid lang (try_cache d e st vid lang) =
     (Return s,
      [CallGetCachedTranscript vid lang,
       ConsoleLog (''Cache hit for '' @ vid @ '' (lang: '' @ lang @ '')'')])"
  by (simp add: catch_cache_def try_cache_def)

lemma check_hit_marked_error:
  "getCachedTranscript d e st vid lang = Inr (Some s) \<Longrightarrow> startsWith s ''Error:'' \<Longrightarrow>
   catch_cache vid lang (try_cache d e st vid lang) =
     (Throw (JsError ''Error'' s),
      [CallGetCachedTranscript vid lang,
       ConsoleLog (''Cache hit for '' @ vid @ '' (lang: '' @ lang @ '')'')])"
  by (cases s) (simp_all add: catch_cache_def try_cache_def isCachedError_def)

lemma check_hit_unmarked_error:
  "getCachedTranscript d e st vid lang = Inr (Some s) \<Longrightarrow> s \<noteq> [] \<Longrightarrow> isCachedError s \<Longrightarrow>
   \<not> startsWith s ''Error:'' \<Longrightarrow>
   catch_cache vid lang (try_cache d e st vid lang) =
     (Fallthrough,
      [CallGetCachedTranscript vid lang,
       ConsoleLog (''Cache hit for '' @ vid @ '' (lang: '' @ lang @ '')''),
       ConsoleError [Str (''Cache read error for '' @ vid @ '' (lang: '' @ lang
          @ ''): '' @ s @ ''. Proceeding to fetch.'')]])"
  by (simp add: catch_cache_def try_cache_def)

lemma check_absent:
  "getCachedTranscript d e st vid lang = Inr c \<Longrightarrow> \<not> truthy c \<Longrightarrow>
   catch_cache vid lang (try_cache d e st vid lang) =
     (Fallthrough, [CallGetCachedTranscript vid lang])"
  by (cases c) (simp_all add: catch_cache_def try_cache_def)

lemma check_fault_swallowed:
  "getCachedTranscript d e st vid lang = Inl cacheError \<Longrightarrow>
   \<not> startsWith (message cacheError) ''Error:'' \<Longrightarrow>
   catch_cache vid lang (try_cache d e st vid lang) =
     (Fallthrough,
      [CallGetCachedTranscript vid lang,
       ConsoleError [Str (''Cache read error for '' @ vid @ '' (lang: '' @ lang
          @ ''): '' @ message cacheError @ ''. Proceeding to fetch.'')]])"
  by (simp add: catch_cache_def try_cache_def)


text \<open>The counters make no call to the cache or to the fetcher.\<close>

lemma handler_track_calls [simp]:
  "filter is_fetch_call (handler_track d e vid) = []"
  "filter is_cache_write (handler_track d e vid) = []"
  "filter is_cache_read (handler_track d e vid) = []"
  by (simp_all add: handler_track_def catch_detached_def split: option.splits)

lemma track_calls [simp]:
  "filter is_fetch_call (track d e vid) = []"
  "filter is_cache_write (track d e vid) = []"
  "filter is_cache_read (track d e vid) = []"
  by (simp_all add: track_def catch_detached_def split: option.splits)

text \<open>What the miss path returns and calls.\<close>

lemma handler_miss_result:
  "fst (handler_miss d e st vid lang) =
     Inr (text_result (fst (fetch_outcome d vid lang)) (snd (fetch_outcome d vid lang)))"
  by (simp add: handler_miss_def handler_fetch_def handler_cache_write_def fetch_outcome_def
      split: sum.splits prod.splits option.splits)

lemma handler_miss_store:
  "fst (snd (handler_miss d e st vid lang)) =
     snd (setCachedTranscript d e st vid lang
            (fst (fetch_outcome d vid lang)) (snd (fetch_outcome d vid lang)))"
  by (simp add: handler_miss_def handler_fetch_def handler_cache_write_def fetch_outcome_def
      split: sum.splits prod.splits option.splits)

lemma handler_miss_calls:
  "filter is_fetch_call (snd (snd (handler_miss d e st vid lang))) =
     [CallFetchTranscriptFromYouTube vid lang]"
  "filter is_cache_write (snd (snd (handler_miss d e st vid lang))) =
     [CallSetCachedTranscript vid lang
        (fst (fetch_outcome d vid lang)) (snd (fetch_outcome d vid lang))]"
  "filter is_cache_read (snd (snd (handler_miss d e st vid lang))) = []"
  by (simp_all add: handler_miss_def handler_fetch_def handler_cache_write_def fetch_outcome_def
      split: sum.splits prod.splits option.splits)

lemma miss_result:
  "fst (miss d e st vid lang) =
     (if snd (fetch_outcome d vid lang) then Inl (JsError ''Error'' (fst (fetch_outcome d vid lang)))
      else Inr (fst (fetch_outcome d vid lang)))"
  by (simp add: miss_def fetch_def cache_write_def fetch_outcome_def
      split: sum.splits prod.splits option.splits)

lemma miss_store:
  "fst (snd (miss d e st vid lang)) =
     (if TRANSCRIPT_CACHE e then
        snd (setCachedTranscript d e st vid lang
               (fst (fetch_outcome d vid lang)) (snd (fetch_outcome d vid lang)))
      else st)"
  by (simp add: miss_def fetch_def cache_write_def fetch_outcome_def
      split: sum.splits prod.splits option.splits)

lemma miss_calls:
  "filter is_fetch_call (snd (snd (miss d e st vid lang))) =
     [CallFetchTranscriptFromYouTube vid lang]"
  "filter is_cache_write (snd (snd (miss d e st vid lang))) =
     (if TRANSCRIPT_CACHE e then
        [CallSetCachedTranscript vid lang
           (fst (fetch_outcome d vid lang)) (snd (fetch_outcome d vid lang))]
      else [])"
  "filter is_cache_read (snd (snd (miss d e st vid lang))) = []"
  by (simp_all add: miss_def fetch_def cache_write_def fetch_outcome_def catch_detached_def Let_def
      split: sum.splits prod.splits option.splits)


lemma url_example:
  "url_isValid ''https://youtu.be/abc123''"
  "url_normalize ''https://youtu.be/abc123'' = ''https://www.youtube.com/watch?v=abc123''"
  "url_extractId ''https://www.youtube.com/watch?v=abc123'' = Some ''abc123''"
  by (simp_all add: url_isValid_def url_normalize_def url_extractId_def canonical_prefix_def
      id_token_def)

lemma url_example_invalid: "\<not> url_isValid ''not a url''"
  by (simp add: url_isValid_def url_normalize_def url_extractId_def canonical_prefix_def
      id_token_def)

lemma spec_deps_sel [simp]:
  "isValidYouTubeUrl (spec_deps f h) = url_isValid"
  "normalizeYouTubeUrl (spec_deps f h) = url_normalize"
  "extractVideoId (spec_deps f h) = url_extractId"
  "getCachedTranscript (spec_deps f h) = kv_get"
  "setCachedTranscript (spec_deps f h) = kv_set"
  "fetchTranscriptFromYouTube (spec_deps f h) = f"
  "handleYouTubeErrors (spec_deps f h) = h"
  "trackDailyRequests (spec_deps f h) = (\<lambda>e. None)"
  "incrementVideoRequestCount (spec_deps f h) = (\<lambda>e v. None)"
  "logAnalyticsError (spec_deps f h) = (\<lambda>e v b n. None)"
  by (simp_all add: spec_deps_def)

lemma handler_on_return:
  assumes "isValidYouTubeUrl d (url input)"
    and "extractVideoId d (normalizeYouTubeUrl d (url input)) = Some vid"
    and "vid \<noteq> []"
    and "handler_catch_cache vid (handler_try_cache d e st vid (language_default (language input)))
           = (Return r, evs3)"
  shows "getTranscriptHandler d input e st = (Inr r, st, handler_track d e vid @ evs3)"
  using assms by (simp add: handler_valid)

lemma handler_on_fallthrough:
  assumes "isValidYouTubeUrl d (url input)"
    and "extractVideoId d (normalizeYouTubeUrl d (url input)) = Some vid"
    and "vid \<noteq> []"
    and "handler_catch_cache vid (handler_try_cache d e st vid (language_default (language input)))
           = (Fallthrough, evs3)"
  shows "getTranscriptHandler d input e st =
           (fst (handler_miss d e st vid (language_default (language input))),
            fst (snd (handler_miss d e st vid (language_default (language input)))),
            handler_track d e vid @ evs3
              @ snd (snd (handler_miss d e st vid (language_default (language input)))))"
  using assms by (simp add: handler_valid case_prod_beta)

lemma getTranscript_on_return:
  assumes "isValidYouTubeUrl d u"
    and "extractVideoId d (normalizeYouTubeUrl d u) = Some vid"
    and "vid \<noteq> []"
    and "catch_cache vid (language_default l) (try_cache d e st vid (language_default l))
           = (Return t, evs3)"
  shows "getTranscript d u e l st = (Inr t, st, track d e vid @ evs3)"
  using assms by (simp add: getTranscript_valid)

lemma getTranscript_on_throw:
  assumes "isValidYouTubeUrl d u"
    and "extractVideoId d (normalizeYouTubeUrl d u) = Some vid"
    and "vid \<noteq> []"
    and "catch_cache vid (language_default l) (try_cache d e st vid (language_default l))
           = (Throw err, evs3)"
  shows "getTranscript d u e l st = (Inl err, st, track d e vid @ evs3)"
  using assms by (simp add: getTranscript_valid)

lemma getTranscript_on_fallthrough:
  assumes "isValidYouTubeUrl d u"
    and "extractVideoId d (normalizeYouTubeUrl d u) = Some vid"
    and "vid \<noteq> []"
    and "catch_cache vid (language_default l) (try_cache d e st vid (language_default l))
           = (Fallthrough, evs3)"
  shows "getTranscript d u e l st =
           (fst (miss d e st vid (language_default l)),
            fst (snd (miss d e st vid (language_default l))),
            track d e vid @ evs3 @ snd (snd (miss d e st vid (language_default l))))"
  using assms by (simp add: getTranscript_valid case_prod_beta)

lemma handler_returns_text_result:
  "\<exists>t b. fst (getTranscriptHandler d input e st) = Inr (text_result t b)"
proof (cases "isValidYouTubeUrl d (url input)")
  case False
  then show ?thesis by (metis handler_invalid fst_conv)
next
  case valid: True
  show ?thesis
  proof (cases "truthy (extractVideoId d (normalizeYouTubeUrl d (url input)))")
    case False
    with valid show ?thesis by (metis handler_no_id fst_conv)
  next
    case True
    then obtain vid where vid: "extractVideoId d (normalizeYouTubeUrl d (url input)) = Some vid"
      "vid \<noteq> []"
      by (cases "extractVideoId d (normalizeYouTubeUrl d (url input))") auto
    let ?lang = "language_default (language input)"
    show ?thesis
    proof (cases "getCachedTranscript d e st vid ?lang")
      case (Inl cacheError)
      then have "fst (getTranscriptHandler d input e st) =
          Inr (text_result (fst (fetch_outcome d vid ?lang)) (snd (fetch_outcome d vid ?lang)))"
        by (simp add: handler_on_fallthrough [OF valid vid handler_check_fault]
            handler_miss_result)
      then show ?thesis by blast
    next
      case (Inr c)
      show ?thesis
      proof (cases "truthy c")
        case True
        then obtain s where "c = Some s" "s \<noteq> []" by (cases c) auto
        with Inr have "fst (getTranscriptHandler d input e st) = Inr (text_result s (isLikelyError s))"
          by (simp add: handler_on_return [OF valid vid handler_check_hit])
        then show ?thesis by blast
      next
        case False
        with Inr have "fst (getTranscriptHandler d input e st) =
            Inr (text_result (fst (fetch_outcome d vid ?lang)) (snd (fetch_outcome d vid ?lang)))"
          by (simp add: handler_on_fallthrough [OF valid vid handler_check_absent]
              handler_miss_result)
        then show ?thesis by blast
      qed
    qed
  qed
qed

section \<open>Invalid input\<close>

text \<open>
  Claim C4. For every structurally invalid URL (\<^verbatim>\<open>isValidYouTubeUrl\<close> returns false) the
  pipeline ends with the invalid-input error, returned with \<open>isError\<close> true by the handler
  and thrown by \<^verbatim>\<open>getTranscript\<close>, and performs no cache read, no cache write and no
  fetch: the store is unchanged and the run has no event at all.
\<close>

theorem invalid_url_no_cache_no_fetch:
  assumes "\<not> isValidYouTubeUrl d (url input)"
  shows "getTranscriptHandler d input e st =
           (Inr \<lparr>content = [\<lparr>type = ''text'', text' = ''Error: Invalid YouTube URL provided.''\<rparr>],
                 isError = True\<rparr>, st, [])
       \<and> getTranscript d (url input) e (language input) st =
           (Inl (JsError ''Error'' ''Invalid YouTube URL provided.''), st, [])"
  using assms by (simp add: handler_invalid getTranscript_invalid text_result_def)

text \<open>
  A run on a string that is no URL.
\<close>

theorem invalid_url_no_cache_no_fetch_witness:
  "\<not> isValidYouTubeUrl (spec_deps fetch_hello generic_classifier)
        (url \<lparr>url = ''not a url'', language = None\<rparr>)
   \<and> getTranscriptHandler (spec_deps fetch_hello generic_classifier)
        \<lparr>url = ''not a url'', language = None\<rparr> env_bound Map.empty =
       (Inr \<lparr>content = [\<lparr>type = ''text'', text' = ''Error: Invalid YouTube URL provided.''\<rparr>],
             isError = True\<rparr>, Map.empty, [])
   \<and> getTranscript (spec_deps fetch_hello generic_classifier)
        ''not a url'' env_bound None Map.empty =
       (Inl (JsError ''Error'' ''Invalid YouTube URL provided.''), Map.empty, [])"
proof -
  have h: "\<not> isValidYouTubeUrl (spec_deps fetch_hello generic_classifier)
        (url \<lparr>url = ''not a url'', language = None\<rparr>)"
    by (simp add: url_example_invalid)
  show ?thesis
    using h invalid_url_no_cache_no_fetch [OF h, of env_bound Map.empty] by simp
qed

section \<open>The handler never throws\<close>




section \<open>Usage counters\<close>

text \<open>No step of either function reads a counter's outcome.\<close>

lemma counters_upd_sel [simp]:
  "isValidYouTubeUrl (d\<lparr>trackDailyRequests := a, incrementVideoRequestCount := b, logAnalyticsError := c\<rparr>) = isValidYouTubeUrl d"
  "normalizeYouTubeUrl (d\<lparr>trackDailyRequests := a, incrementVideoRequestCount := b, logAnalyticsError := c\<rparr>) = normalizeYouTubeUrl d"
  "extractVideoId (d\<lparr>trackDailyRequests := a, incrementVideoRequestCount := b, logAnalyticsError := c\<rparr>) = extractVideoId d"
  "getCachedTranscript (d\<lparr>trackDailyRequests := a, incrementVideoRequestCount := b, logAnalyticsError := c\<rparr>) = getCachedTranscript d"
  "setCachedTranscript (d\<lparr>trackDailyRequests := a, incrementVideoRequestCount := b, logAnalyticsError := c\<rparr>) = setCachedTranscript d"
  "fetchTranscriptFromYouTube (d\<lparr>trackDailyRequests := a, incrementVideoRequestCount := b, logAnalyticsError := c\<rparr>) = fetchTranscriptFromYouTube d"
  "handleYouTubeErrors (d\<lparr>trackDailyRequests := a, incrementVideoRequestCount := b, logAnalyticsError := c\<rparr>) = handleYouTubeErrors d"
  by simp_all

text \<open>The steps that do not start a counter do not depend on the counters.\<close>

lemma counters_handler_check:
  "handler_catch_cache vid (handler_try_cache (d\<lparr>trackDailyRequests := a, incrementVideoRequestCount := b, logAnalyticsError := c\<rparr>) e st vid lang)
     = handler_catch_cache vid (handler_try_cache d e st vid lang)"
  by (simp add: handler_try_cache_def)

lemma counters_handler_miss:
  "handler_miss (d\<lparr>trackDailyRequests := a, incrementVideoRequestCount := b, logAnalyticsError := c\<rparr>) e st vid lang
     = handler_miss d e st vid lang"
proof -
  have "handler_fetch (d\<lparr>trackDailyRequests := a, incrementVideoRequestCount := b, logAnalyticsError := c\<rparr>) vid lang
      = handler_fetch d vid lang"
    by (simp add: handler_fetch_def split: sum.splits)
  moreover have "\<And>t f. handler_cache_write (d\<lparr>trackDailyRequests := a, incrementVideoRequestCount := b, logAnalyticsError := c\<rparr>) e st vid lang t f
      = handler_cache_write d e st vid lang t f"
    by (simp add: handler_cache_write_def)
  ultimately show ?thesis
    by (simp add: handler_miss_def)
qed

lemma counters_check:
  "catch_cache vid lang (try_cache (d\<lparr>trackDailyRequests := a, incrementVideoRequestCount := b, logAnalyticsError := c\<rparr>) e st vid lang)
     = catch_cache vid lang (try_cache d e st vid lang)"
  by (simp add: try_cache_def)

lemma counters_fetch_outcome:
  "fetch_outcome (d\<lparr>trackDailyRequests := a, incrementVideoRequestCount := b, logAnalyticsError := c\<rparr>) vid lang
     = fetch_outcome d vid lang"
  by (simp add: fetch_outcome_def split: sum.splits)

lemma pipeline_calls_append [simp]:
  "pipeline_calls (xs @ ys) = pipeline_calls xs @ pipeline_calls ys"
  by (simp add: pipeline_calls_def)

lemma pipeline_calls_handler_track [simp]: "pipeline_calls (handler_track d e vid) = []"
  by (simp add: pipeline_calls_def handler_track_def catch_detached_def split: option.splits)

lemma pipeline_calls_track [simp]: "pipeline_calls (track d e vid) = []"
  by (simp add: pipeline_calls_def track_def catch_detached_def split: option.splits)

lemma pipeline_calls_miss:
  "pipeline_calls (snd (snd (miss d e st vid lang))) =
     CallFetchTranscriptFromYouTube vid lang #
     (if TRANSCRIPT_CACHE e then
        [CallSetCachedTranscript vid lang
           (fst (fetch_outcome d vid lang)) (snd (fetch_outcome d vid lang))]
      else [])"
  by (simp add: pipeline_calls_def miss_def fetch_def cache_write_def fetch_outcome_def
      catch_detached_def Let_def split: sum.splits prod.splits option.splits)

lemma handler_counters:
  "fst (getTranscriptHandler (d\<lparr>trackDailyRequests := a, incrementVideoRequestCount := b, logAnalyticsError := c\<rparr>) input e st)
     = fst (getTranscriptHandler d input e st)"
  "fst (snd (getTranscriptHandler (d\<lparr>trackDailyRequests := a, incrementVideoRequestCount := b, logAnalyticsError := c\<rparr>) input e st))
     = fst (snd (getTranscriptHandler d input e st))"
  "pipeline_calls (snd (snd (getTranscriptHandler (d\<lparr>trackDailyRequests := a, incrementVideoRequestCount := b, logAnalyticsError := c\<rparr>) input e st)))
     = pipeline_calls (snd (snd (getTranscriptHandler d input e st)))"
  by (simp_all add: getTranscriptHandler_def Let_def counters_handler_check counters_handler_miss
      split: option.splits prod.splits completion.splits)

lemma getTranscript_counters:
  "fst (getTranscript (d\<lparr>trackDailyRequests := a, incrementVideoRequestCount := b, logAnalyticsError := c\<rparr>) u e l st)
     = fst (getTranscript d u e l st)"
  "fst (snd (getTranscript (d\<lparr>trackDailyRequests := a, incrementVideoRequestCount := b, logAnalyticsError := c\<rparr>) u e l st))
     = fst (snd (getTranscript d u e l st))"
  "pipeline_calls (snd (snd (getTranscript (d\<lparr>trackDailyRequests := a, incrementVideoRequestCount := b, logAnalyticsError := c\<rparr>) u e l st)))
     = pipeline_calls (snd (snd (getTranscript d u e l st)))"
  by (simp_all add: getTranscript_def Let_def counters_check case_prod_beta
      miss_result miss_store pipeline_calls_miss counters_fetch_outcome
      split: option.splits completion.splits)


text \<open>
  Claim C8. For every request, the result returned or thrown is the same in the run where
  the usage counters (\<^verbatim>\<open>trackDailyRequests\<close>, \<^verbatim>\<open>incrementVideoRequestCount\<close>, and the
  failure log of \<^verbatim>\<open>getTranscript\<close>) resolve and in the run where they reject: two runs
  that differ only in the outcomes of the counters give the same result, the same store
  and the same calls to the cache and to the fetcher, for the handler and for
  \<^verbatim>\<open>getTranscript\<close>, and the handler still returns a tool result.
\<close>

theorem counter_outcomes_do_not_interfere:
  "fst (getTranscriptHandler
          (d\<lparr>trackDailyRequests := a1, incrementVideoRequestCount := b1, logAnalyticsError := c1\<rparr>)
          input e st)
     = fst (getTranscriptHandler
          (d\<lparr>trackDailyRequests := a2, incrementVideoRequestCount := b2, logAnalyticsError := c2\<rparr>)
          input e st)
   \<and> fst (getTranscript
          (d\<lparr>trackDailyRequests := a1, incrementVideoRequestCount := b1, logAnalyticsError := c1\<rparr>)
          u e l st)
     = fst (getTranscript
          (d\<lparr>trackDailyRequests := a2, incrementVideoRequestCount := b2, logAnalyticsError := c2\<rparr>)
          u e l st)
   \<and> fst (snd (getTranscriptHandler
          (d\<lparr>trackDailyRequests := a1, incrementVideoRequestCount := b1, logAnalyticsError := c1\<rparr>)
          input e st))
     = fst (snd (getTranscriptHandler
          (d\<lparr>trackDailyRequests := a2, incrementVideoRequestCount := b2, logAnalyticsError := c2\<rparr>)
          input e st))
   \<and> fst (snd (getTranscript
          (d\<lparr>trackDailyRequests := a1, incrementVideoRequestCount := b1, logAnalyticsError := c1\<rparr>)
          u e l st))
     = fst (snd (getTranscript
          (d\<lparr>trackDailyRequests := a2, incrementVideoRequestCount := b2, logAnalyticsError := c2\<rparr>)
          u e l st))
   \<and> pipeline_calls (snd (snd (getTranscriptHandler
          (d\<lparr>trackDailyRequests := a1, incrementVideoRequestCount := b1, logAnalyticsError := c1\<rparr>)
          input e st)))
     = pipeline_calls (snd (snd (getTranscriptHandler
          (d\<lparr>trackDailyRequests := a2, incrementVideoRequestCount := b2, logAnalyticsError := c2\<rparr>)
          input e st)))
   \<and> pipeline_calls (snd (snd (getTranscript
          (d\<lparr>trackDailyRequests := a1, incrementVideoRequestCount := b1, logAnalyticsError := c1\<rparr>)
          u e l st)))
     = pipeline_calls (snd (snd (getTranscript
          (d\<lparr>trackDailyRequests := a2, incrementVideoRequestCount := b2, logAnalyticsError := c2\<rparr>)
          u e l st)))
   \<and> (\<exists>t b. fst (getTranscriptHandler
          (d\<lparr>trackDailyRequests := a1, incrementVideoRequestCount := b1, logAnalyticsError := c1\<rparr>)
          input e st) = Inr (text_result t b))"
  using handler_returns_text_result
    [of "d\<lparr>trackDailyRequests := a1, incrementVideoRequestCount := b1, logAnalyticsError := c1\<rparr>"
        input e st]
  by (simp only: handler_counters getTranscript_counters simp_thms)

text \<open>
  A run in which every counter rejects: the results are those of the run in which none does.
\<close>

theorem counter_outcomes_do_not_interfere_witness:
  "fst (getTranscriptHandler
          (spec_deps fetch_hello generic_classifier
             \<lparr>trackDailyRequests := (\<lambda>e. rejecting),
              incrementVideoRequestCount := (\<lambda>e v. rejecting),
              logAnalyticsError := (\<lambda>e v b n. rejecting)\<rparr>)
          \<lparr>url = ''https://youtu.be/abc123'', language = None\<rparr> env_bound Map.empty)
     = Inr (text_result ''Hello world.'' False)
   \<and> fst (getTranscript
          (spec_deps fetch_hello generic_classifier
             \<lparr>trackDailyRequests := (\<lambda>e. rejecting),
              incrementVideoRequestCount := (\<lambda>e v. rejecting),
              logAnalyticsError := (\<lambda>e v b n. rejecting)\<rparr>)
          ''https://youtu.be/abc123'' env_bound None Map.empty)
     = Inr ''Hello world.''"
proof -
  let ?d = "spec_deps fetch_hello generic_classifier"
  let ?i = "\<lparr>url = ''https://youtu.be/abc123'', language = None\<rparr>"
  have valid: "isValidYouTubeUrl ?d (url ?i)"
    "extractVideoId ?d (normalizeYouTubeUrl ?d (url ?i)) = Some ''abc123''" "''abc123'' \<noteq> []"
    by (simp_all add: url_example)
  have absent: "getCachedTranscript ?d env_bound Map.empty ''abc123'' (language_default (language ?i)) = Inr None"
    "\<not> truthy None"
    by (simp_all add: kv_get_def)
  have h: "fst (getTranscriptHandler ?d ?i env_bound Map.empty) = Inr (text_result ''Hello world.'' False)"
    by (simp add: handler_on_fallthrough [OF valid handler_check_absent [OF absent]]
        handler_miss_result fetch_outcome_def fetch_hello_def)
  have valid': "isValidYouTubeUrl ?d ''https://youtu.be/abc123''"
    "extractVideoId ?d (normalizeYouTubeUrl ?d ''https://youtu.be/abc123'') = Some ''abc123''"
    "''abc123'' \<noteq> []"
    by (simp_all add: url_example)
  have absent': "getCachedTranscript ?d env_bound Map.empty ''abc123'' (language_default None) = Inr None"
    by (simp add: kv_get_def)
  have g: "fst (getTranscript ?d ''https://youtu.be/abc123'' env_bound None Map.empty) = Inr ''Hello world.''"
    by (simp add: getTranscript_on_fallthrough [OF valid' check_absent [OF absent' absent(2)]]
        miss_result fetch_outcome_def fetch_hello_def)
  have same: "?d\<lparr>trackDailyRequests := (\<lambda>e. None), incrementVideoRequestCount := (\<lambda>e v. None),
      logAnalyticsError := (\<lambda>e v b n. None)\<rparr> = ?d"
    by (simp add: spec_deps_def)
  show ?thesis
    using counter_outcomes_do_not_interfere
      [where d = ?d and ?a1.0 = "\<lambda>e. rejecting" and ?b1.0 = "\<lambda>e v. rejecting"
         and ?c1.0 = "\<lambda>e v b n. rejecting" and input = ?i and e = env_bound and st = Map.empty
         and ?a2.0 = "\<lambda>e. None" and ?b2.0 = "\<lambda>e v. None" and ?c2.0 = "\<lambda>e v b n. None"
         and u = "''https://youtu.be/abc123''" and l = None]
    by (simp only: same h g simp_thms)
qed


lemma cache_writes_append [simp]: "cache_writes (xs @ ys) = cache_writes xs @ cache_writes ys"
  by (simp add: cache_writes_def)

lemma fetch_calls_append [simp]: "fetch_calls (xs @ ys) = fetch_calls xs @ fetch_calls ys"
  by (simp add: fetch_calls_def)

lemma calls_Cons [simp]:
  "cache_writes (ev # evs) = (if is_cache_write ev then ev # cache_writes evs else cache_writes evs)"
  "fetch_calls (ev # evs) = (if is_fetch_call ev then ev # fetch_calls evs else fetch_calls evs)"
  "cache_writes [] = []" "fetch_calls [] = []"
  by (simp_all add: cache_writes_def fetch_calls_def)

lemma calls_track [simp]:
  "cache_writes (handler_track d e vid) = []" "fetch_calls (handler_track d e vid) = []"
  "cache_writes (track d e vid) = []" "fetch_calls (track d e vid) = []"
  by (simp_all add: cache_writes_def fetch_calls_def)

lemma calls_handler_miss:
  "fetch_calls (snd (snd (handler_miss d e st vid lang))) = [CallFetchTranscriptFromYouTube vid lang]"
  "cache_writes (snd (snd (handler_miss d e st vid lang))) =
     [CallSetCachedTranscript vid lang
        (fst (fetch_outcome d vid lang)) (snd (fetch_outcome d vid lang))]"
  by (simp_all add: cache_writes_def fetch_calls_def handler_miss_calls)

lemma calls_miss:
  "fetch_calls (snd (snd (miss d e st vid lang))) = [CallFetchTranscriptFromYouTube vid lang]"
  "cache_writes (snd (snd (miss d e st vid lang))) =
     (if TRANSCRIPT_CACHE e then
        [CallSetCachedTranscript vid lang
           (fst (fetch_outcome d vid lang)) (snd (fetch_outcome d vid lang))]
      else [])"
  by (simp_all add: cache_writes_def fetch_calls_def miss_calls)

text \<open>Both functions on a lookup that resolves to nothing.\<close>

lemma handler_absent:
  assumes "isValidYouTubeUrl d (url input)"
    and "extractVideoId d (normalizeYouTubeUrl d (url input)) = Some vid"
    and "vid \<noteq> []"
    and "getCachedTranscript d e st vid (language_default (language input)) = Inr c"
    and "\<not> truthy c"
  shows "fst (getTranscriptHandler d input e st) =
           Inr (text_result (fst (fetch_outcome d vid (language_default (language input))))
                            (snd (fetch_outcome d vid (language_default (language input)))))"
    and "fst (snd (getTranscriptHandler d input e st)) =
           snd (setCachedTranscript d e st vid (language_default (language input))
                  (fst (fetch_outcome d vid (language_default (language input))))
                  (snd (fetch_outcome d vid (language_default (language input)))))"
    and "fetch_calls (snd (snd (getTranscriptHandler d input e st))) =
           [CallFetchTranscriptFromYouTube vid (language_default (language input))]"
    and "cache_writes (snd (snd (getTranscriptHandler d input e st))) =
           [CallSetCachedTranscript vid (language_default (language input))
              (fst (fetch_outcome d vid (language_default (language input))))
              (snd (fetch_outcome d vid (language_default (language input))))]"
  by (simp_all add: handler_on_fallthrough [OF assms(1-3) handler_check_absent [OF assms(4,5)]]
      handler_miss_result handler_miss_store calls_handler_miss)

lemma getTranscript_absent:
  assumes "isValidYouTubeUrl d u"
    and "extractVideoId d (normalizeYouTubeUrl d u) = Some vid"
    and "vid \<noteq> []"
    and "getCachedTranscript d e st vid (language_default l) = Inr c"
    and "\<not> truthy c"
  shows "fst (getTranscript d u e l st) =
           (if snd (fetch_outcome d vid (language_default l))
            then Inl (JsError ''Error'' (fst (fetch_outcome d vid (language_default l))))
            else Inr (fst (fetch_outcome d vid (language_default l))))"
    and "fst (snd (getTranscript d u e l st)) =
           (if TRANSCRIPT_CACHE e then
              snd (setCachedTranscript d e st vid (language_default l)
                     (fst (fetch_outcome d vid (language_default l)))
                     (snd (fetch_outcome d vid (language_default l))))
            else st)"
    and "fetch_calls (snd (snd (getTranscript d u e l st))) =
           [CallFetchTranscriptFromYouTube vid (language_default l)]"
    and "cache_writes (snd (snd (getTranscript d u e l st))) =
           (if TRANSCRIPT_CACHE e then
              [CallSetCachedTranscript vid (language_default l)
                 (fst (fetch_outcome d vid (language_default l)))
                 (snd (fetch_outcome d vid (language_default l)))]
            else [])"
  by (simp_all add: getTranscript_on_fallthrough [OF assms(1-3) check_absent [OF assms(4,5)]]
      miss_result miss_store calls_miss)

section \<open>Cache miss\<close>




lemma env_sel [simp]:
  "TRANSCRIPT_KV env_bound" "TRANSCRIPT_CACHE env_bound"
  "\<not> TRANSCRIPT_KV env_unbound" "\<not> TRANSCRIPT_CACHE env_unbound"
  by (simp_all add: env_bound_def env_unbound_def)





section \<open>Cache hit\<close>

lemma handler_hit:
  assumes "isValidYouTubeUrl d (url input)"
    and "extractVideoId d (normalizeYouTubeUrl d (url input)) = Some vid"
    and "vid \<noteq> []"
    and "getCachedTranscript d e st vid (language_default (language input)) = Inr (Some s)"
    and "s \<noteq> []"
  shows "getTranscriptHandler d input e st =
           (Inr (text_result s (isLikelyError s)), st,
            handler_track d e vid
            @ [CallGetCachedTranscript vid (language_default (language input)),
               ConsoleLog (''Cache hit for '' @ vid @ '' (lang: ''
                 @ language_default (language input) @ '')'')])"
  by (rule handler_on_return [OF assms(1-3) handler_check_hit [OF assms(4,5)]])

lemma getTranscript_hit_success:
  assumes "isValidYouTubeUrl d u"
    and "extractVideoId d (normalizeYouTubeUrl d u) = Some vid"
    and "vid \<noteq> []"
    and "getCachedTranscript d e st vid (language_default l) = Inr (Some s)"
    and "s \<noteq> []"
    and "\<not> isCachedError s"
  shows "getTranscript d u e l st =
           (Inr s, st,
            track d e vid
            @ [CallGetCachedTranscript vid (language_default l),
               ConsoleLog (''Cache hit for '' @ vid @ '' (lang: '' @ language_default l @ '')'')])"
  by (rule getTranscript_on_return [OF assms(1-3) check_hit_success [OF assms(4-6)]])

lemma getTranscript_hit_marked_error:
  assumes "isValidYouTubeUrl d u"
    and "extractVideoId d (normalizeYouTubeUrl d u) = Some vid"
    and "vid \<noteq> []"
    and "getCachedTranscript d e st vid (language_default l) = Inr (Some s)"
    and "startsWith s ''Error:''"
  shows "getTranscript d u e l st =
           (Inl (JsError ''Error'' s), st,
            track d e vid
            @ [CallGetCachedTranscript vid (language_default l),
               ConsoleLog (''Cache hit for '' @ vid @ '' (lang: '' @ language_default l @ '')'')])"
  by (rule getTranscript_on_throw [OF assms(1-3) check_hit_marked_error [OF assms(4,5)]])

lemma getTranscript_hit_unmarked_error:
  assumes "isValidYouTubeUrl d u"
    and "extractVideoId d (normalizeYouTubeUrl d u) = Some vid"
    and "vid \<noteq> []"
    and "getCachedTranscript d e st vid (language_default l) = Inr (Some s)"
    and "s \<noteq> []"
    and "isCachedError s"
    and "\<not> startsWith s ''Error:''"
  shows "fst (getTranscript d u e l st) = fst (miss d e st vid (language_default l))"
    and "fetch_calls (snd (snd (getTranscript d u e l st))) =
           [CallFetchTranscriptFromYouTube vid (language_default l)]"
  by (simp_all add: getTranscript_on_fallthrough [OF assms(1-3) check_hit_unmarked_error [OF assms(4-7)]]
      calls_miss)

text \<open>
  Claim C6, as amended. When the lookup for (id, lang) yields a non-empty string that the
  function's own test does not take for an error (\<open>isLikelyError\<close> in the handler,
  \<open>isCachedError\<close> in \<^verbatim>\<open>getTranscript\<close>), the request returns exactly that string as a
  success, the store is unchanged, and after the counters and the read the run only logs
  the hit: no fetch and no cache write.

  The claim as stated covers the empty string, which matches no error phrase; the test
  \<^verbatim>\<open>if (cachedData)\<close> takes it for a miss; the second run below shows it.
\<close>

theorem cached_success_returned_without_fetch:
  assumes "isValidYouTubeUrl d (url input)"
    and "extractVideoId d (normalizeYouTubeUrl d (url input)) = Some vid"
    and "vid \<noteq> []"
    and "getCachedTranscript d e st vid (language_default (language input)) = Inr (Some s)"
    and "s \<noteq> []"
  shows "(\<not> isLikelyError s \<longrightarrow>
            getTranscriptHandler d input e st =
              (Inr \<lparr>content = [\<lparr>type = ''text'', text' = s\<rparr>], isError = False\<rparr>, st,
               handler_track d e vid
               @ [CallGetCachedTranscript vid (language_default (language input)),
                  ConsoleLog (''Cache hit for '' @ vid @ '' (lang: ''
                    @ language_default (language input) @ '')'')])
          \<and> fetch_calls (snd (snd (getTranscriptHandler d input e st))) = []
          \<and> cache_writes (snd (snd (getTranscriptHandler d input e st))) = [])
       \<and> (\<not> isCachedError s \<longrightarrow>
            getTranscript d (url input) e (language input) st =
              (Inr s, st,
               track d e vid
               @ [CallGetCachedTranscript vid (language_default (language input)),
                  ConsoleLog (''Cache hit for '' @ vid @ '' (lang: ''
                    @ language_default (language input) @ '')'')])
          \<and> fetch_calls (snd (snd (getTranscript d (url input) e (language input) st))) = []
          \<and> cache_writes (snd (snd (getTranscript d (url input) e (language input) st))) = [])"
  by (simp add: handler_hit [OF assms] getTranscript_hit_success [OF assms] text_result_def)

text \<open>
  A run on a store that holds a transcript.
\<close>

theorem cached_success_returned_without_fetch_witness:
  "\<not> isLikelyError ''Hello world.'' \<and> \<not> isCachedError ''Hello world.''
   \<and> getTranscriptHandler (spec_deps fetch_fresh generic_classifier)
        \<lparr>url = ''https://youtu.be/abc123'', language = None\<rparr> env_bound kv_hello =
       (Inr \<lparr>content = [\<lparr>type = ''text'', text' = ''Hello world.''\<rparr>], isError = False\<rparr>, kv_hello,
        [CallTrackDailyRequests, CallIncrementVideoRequestCount ''abc123'',
         CallGetCachedTranscript ''abc123'' ''en'', ConsoleLog ''Cache hit for abc123 (lang: en)''])
   \<and> getTranscript (spec_deps fetch_fresh generic_classifier)
        ''https://youtu.be/abc123'' env_bound None kv_hello =
       (Inr ''Hello world.'', kv_hello,
        [CallTrackDailyRequests, CallIncrementVideoRequestCount ''abc123'',
         CallGetCachedTranscript ''abc123'' ''en'', ConsoleLog ''Cache hit for abc123 (lang: en)''])"
proof -
  let ?d = "spec_deps fetch_fresh generic_classifier"
  let ?i = "\<lparr>url = ''https://youtu.be/abc123'', language = None\<rparr>"
  have 1: "isValidYouTubeUrl ?d (url ?i)" by (simp add: url_example)
  have 2: "extractVideoId ?d (normalizeYouTubeUrl ?d (url ?i)) = Some ''abc123''"
    by (simp add: url_example)
  have 3: "''abc123'' \<noteq> []" by simp
  have 4: "getCachedTranscript ?d env_bound kv_hello ''abc123'' (language_default (language ?i))
      = Inr (Some ''Hello world.'')"
    by (simp add: kv_get_def kv_hello_def language_default_def)
  have 5: "''Hello world.'' \<noteq> []" by simp
  have 6: "\<not> isLikelyError ''Hello world.''" by (simp add: isLikelyError_def)
  have 7: "\<not> isCachedError ''Hello world.''" by (simp add: isCachedError_def)
  show ?thesis
    using cached_success_returned_without_fetch [OF 1 2 3 4 5] 6 7
    by (simp add: language_default_def handler_track_def track_def catch_detached_def)
qed

text \<open>
  A run of the handler on a store that holds the empty string under the key: the fetcher
  is called and its text is returned and written.
\<close>

theorem cached_empty_string_is_fetched_again:
  "getCachedTranscript (spec_deps fetch_fresh generic_classifier) env_bound kv_empty_text
      ''abc123'' ''en'' = Inr (Some '''')
   \<and> \<not> isLikelyError '''' \<and> \<not> isCachedError ''''
   \<and> fst (getTranscriptHandler (spec_deps fetch_fresh generic_classifier)
        \<lparr>url = ''https://youtu.be/abc123'', language = None\<rparr> env_bound kv_empty_text) =
       Inr \<lparr>content = [\<lparr>type = ''text'', text' = ''A fresh transcript.''\<rparr>], isError = False\<rparr>
   \<and> fetch_calls (snd (snd (getTranscriptHandler (spec_deps fetch_fresh generic_classifier)
        \<lparr>url = ''https://youtu.be/abc123'', language = None\<rparr> env_bound kv_empty_text))) =
       [CallFetchTranscriptFromYouTube ''abc123'' ''en'']
   \<and> cache_writes (snd (snd (getTranscriptHandler (spec_deps fetch_fresh generic_classifier)
        \<lparr>url = ''https://youtu.be/abc123'', language = None\<rparr> env_bound kv_empty_text))) =
       [CallSetCachedTranscript ''abc123'' ''en'' ''A fresh transcript.'' False]"
proof -
  let ?d = "spec_deps fetch_fresh generic_classifier"
  let ?i = "\<lparr>url = ''https://youtu.be/abc123'', language = None\<rparr>"
  have 1: "isValidYouTubeUrl ?d (url ?i)" by (simp add: url_example)
  have 2: "extractVideoId ?d (normalizeYouTubeUrl ?d (url ?i)) = Some ''abc123''"
    by (simp add: url_example)
  have 3: "''abc123'' \<noteq> []" by simp
  have 4: "getCachedTranscript ?d env_bound kv_empty_text ''abc123'' (language_default (language ?i))
      = Inr (Some '''')"
    by (simp add: kv_get_def kv_empty_text_def language_default_def)
  have 5: "\<not> truthy (Some '''')" by simp
  have 6: "kv_get env_bound kv_empty_text ''abc123'' ''en'' = Inr (Some '''')"
    by (simp add: kv_get_def kv_empty_text_def)
  show ?thesis
    by (simp add: handler_absent [OF 1 2 3 4 5] 6 fetch_outcome_def fetch_fresh_def
        isLikelyError_def isCachedError_def language_default_def text_result_def)
qed


section \<open>Cached errors\<close>

text \<open>
  Claim C1 says that a cached string which matches a known error phrase is reported as a
  failure carrying that text, and that the fetcher is not invoked. The handler does so.
  \<^verbatim>\<open>getTranscript\<close> does not when the string lacks the \<^verbatim>\<open>Error:\<close> marker: its
  \<^verbatim>\<open>throw new Error(cachedData)\<close> stands inside the \<^verbatim>\<open>try\<close> whose \<^verbatim>\<open>catch\<close> rethrows only
  messages that start with the marker. With \<^verbatim>\<open>No transcript available for this video.\<close>
  cached under (\<^verbatim>\<open>abc123\<close>, \<^verbatim>\<open>en\<close>), \<^verbatim>\<open>getTranscript\<close> calls the fetcher and returns the
  fresh transcript as a success, while the handler on the same store reports the cached
  text as an error without a fetch.
\<close>

theorem cached_unmarked_error_is_fetched_again:
  "kv_get env_bound kv_no_transcript ''abc123'' ''en'' =
     Inr (Some ''No transcript available for this video.'')
   \<and> isCachedError ''No transcript available for this video.''
   \<and> fst (getTranscript (spec_deps fetch_fresh generic_classifier)
        ''https://youtu.be/abc123'' env_bound None kv_no_transcript) = Inr ''A fresh transcript.''
   \<and> fetch_calls (snd (snd (getTranscript (spec_deps fetch_fresh generic_classifier)
        ''https://youtu.be/abc123'' env_bound None kv_no_transcript))) =
       [CallFetchTranscriptFromYouTube ''abc123'' ''en'']
   \<and> fst (getTranscriptHandler (spec_deps fetch_fresh generic_classifier)
        \<lparr>url = ''https://youtu.be/abc123'', language = None\<rparr> env_bound kv_no_transcript) =
       Inr \<lparr>content = [\<lparr>type = ''text'', text' = ''No transcript available for this video.''\<rparr>],
            isError = True\<rparr>
   \<and> fetch_calls (snd (snd (getTranscriptHandler (spec_deps fetch_fresh generic_classifier)
        \<lparr>url = ''https://youtu.be/abc123'', language = None\<rparr> env_bound kv_no_transcript))) = []"
proof -
  let ?d = "spec_deps fetch_fresh generic_classifier"
  let ?i = "\<lparr>url = ''https://youtu.be/abc123'', language = None\<rparr>"
  let ?s = "''No transcript available for this video.''"
  have 1: "isValidYouTubeUrl ?d ''https://youtu.be/abc123''" by (simp add: url_example)
  have 2: "extractVideoId ?d (normalizeYouTubeUrl ?d ''https://youtu.be/abc123'') = Some ''abc123''"
    by (simp add: url_example)
  have 3: "''abc123'' \<noteq> []" by simp
  have kv: "kv_get env_bound kv_no_transcript ''abc123'' ''en'' = Inr (Some ?s)"
    by (simp add: kv_get_def kv_no_transcript_def)
  have 4: "getCachedTranscript ?d env_bound kv_no_transcript ''abc123'' (language_default None)
      = Inr (Some ?s)"
    using kv by (simp add: language_default_def)
  have 5: "?s \<noteq> []" by simp
  have 6: "isCachedError ?s" by (simp add: isCachedError_def)
  have 7: "\<not> startsWith ?s ''Error:''" by simp
  have 8: "isLikelyError ?s" by (simp add: isLikelyError_def)
  have v1: "isValidYouTubeUrl ?d (url ?i)" by (simp add: url_example)
  have v2: "extractVideoId ?d (normalizeYouTubeUrl ?d (url ?i)) = Some ''abc123''"
    by (simp add: url_example)
  have c4: "getCachedTranscript ?d env_bound kv_no_transcript ''abc123''
      (language_default (language ?i)) = Inr (Some ?s)"
    using kv by (simp add: language_default_def)
  have g: "fst (getTranscript ?d ''https://youtu.be/abc123'' env_bound None kv_no_transcript)
      = Inr ''A fresh transcript.''"
    by (simp add: getTranscript_hit_unmarked_error [OF 1 2 3 4 5 6 7] miss_result
        fetch_outcome_def fetch_fresh_def)
  have gf: "fetch_calls (snd (snd (getTranscript ?d ''https://youtu.be/abc123'' env_bound None
      kv_no_transcript))) = [CallFetchTranscriptFromYouTube ''abc123'' ''en'']"
    by (simp add: getTranscript_hit_unmarked_error [OF 1 2 3 4 5 6 7] language_default_def)
  have h: "getTranscriptHandler ?d ?i env_bound kv_no_transcript =
      (Inr (text_result ?s True), kv_no_transcript,
       handler_track ?d env_bound ''abc123''
       @ [CallGetCachedTranscript ''abc123'' (language_default (language ?i)),
          ConsoleLog (''Cache hit for '' @ ''abc123'' @ '' (lang: ''
            @ language_default (language ?i) @ '')'')])"
    using handler_hit [OF v1 v2 3 c4 5] 8 by simp
  have hr: "fst (getTranscriptHandler ?d ?i env_bound kv_no_transcript) =
      Inr \<lparr>content = [\<lparr>type = ''text'', text' = ?s\<rparr>], isError = True\<rparr>"
    by (simp add: h text_result_def)
  have hf: "fetch_calls (snd (snd (getTranscriptHandler ?d ?i env_bound kv_no_transcript))) = []"
    by (simp add: h)
  from kv 6 g gf hr hf show ?thesis by (intro conjI)
qed

section \<open>Faults of the cache read\<close>

lemma read_upd_sel [simp]:
  "isValidYouTubeUrl (d\<lparr>getCachedTranscript := r\<rparr>) = isValidYouTubeUrl d"
  "normalizeYouTubeUrl (d\<lparr>getCachedTranscript := r\<rparr>) = normalizeYouTubeUrl d"
  "extractVideoId (d\<lparr>getCachedTranscript := r\<rparr>) = extractVideoId d"
  "getCachedTranscript (d\<lparr>getCachedTranscript := r\<rparr>) = r"
  "setCachedTranscript (d\<lparr>getCachedTranscript := r\<rparr>) = setCachedTranscript d"
  by simp_all

lemma read_upd_fetch_outcome [simp]:
  "fetch_outcome (d\<lparr>getCachedTranscript := r\<rparr>) vid lang = fetch_outcome d vid lang"
  by (simp add: fetch_outcome_def split: sum.splits)

lemma handler_fault:
  assumes "isValidYouTubeUrl d (url input)"
    and "extractVideoId d (normalizeYouTubeUrl d (url input)) = Some vid"
    and "vid \<noteq> []"
    and "getCachedTranscript d e st vid (language_default (language input)) = Inl cacheError"
  shows "fst (getTranscriptHandler d input e st) =
           Inr (text_result (fst (fetch_outcome d vid (language_default (language input))))
                            (snd (fetch_outcome d vid (language_default (language input)))))"
    and "fst (snd (getTranscriptHandler d input e st)) =
           snd (setCachedTranscript d e st vid (language_default (language input))
                  (fst (fetch_outcome d vid (language_default (language input))))
                  (snd (fetch_outcome d vid (language_default (language input)))))"
    and "fetch_calls (snd (snd (getTranscriptHandler d input e st))) =
           [CallFetchTranscriptFromYouTube vid (language_default (language input))]"
    and "ConsoleError [Str (''Cache read error for '' @ vid @ '': '' @ message cacheError)]
           \<in> set (snd (snd (getTranscriptHandler d input e st)))"
  by (simp_all add: handler_on_fallthrough [OF assms(1-3) handler_check_fault [OF assms(4)]]
      handler_miss_result handler_miss_store calls_handler_miss)

lemma getTranscript_fault_swallowed:
  assumes "isValidYouTubeUrl d u"
    and "extractVideoId d (normalizeYouTubeUrl d u) = Some vid"
    and "vid \<noteq> []"
    and "getCachedTranscript d e st vid (language_default l) = Inl cacheError"
    and "\<not> startsWith (message cacheError) ''Error:''"
  shows "fst (getTranscript d u e l st) =
           (if snd (fetch_outcome d vid (language_default l))
            then Inl (JsError ''Error'' (fst (fetch_outcome d vid (language_default l))))
            else Inr (fst (fetch_outcome d vid (language_default l))))"
    and "fst (snd (getTranscript d u e l st)) =
           (if TRANSCRIPT_CACHE e then
              snd (setCachedTranscript d e st vid (language_default l)
                     (fst (fetch_outcome d vid (language_default l)))
                     (snd (fetch_outcome d vid (language_default l))))
            else st)"
    and "fetch_calls (snd (snd (getTranscript d u e l st))) =
           [CallFetchTranscriptFromYouTube vid (language_default l)]"
    and "ConsoleError [Str (''Cache read error for '' @ vid @ '' (lang: '' @ language_default l
             @ ''): '' @ message cacheError @ ''. Proceeding to fetch.'')]
           \<in> set (snd (snd (getTranscript d u e l st)))"
  by (simp_all add: getTranscript_on_fallthrough [OF assms(1-3) check_fault_swallowed [OF assms(4,5)]]
      miss_result miss_store calls_miss)








section \<open>The two calling conventions\<close>

lemma conventions_agree_on_miss:
  assumes h: "fst H = Inr (text_result t failed)"
    and g: "fst G = (if failed then Inl (JsError ''Error'' t) else Inr t)"
  shows "(\<forall>x. fst H = Inr \<lparr>content = [\<lparr>type = ''text'', text' = x\<rparr>], isError = False\<rparr>
              \<longleftrightarrow> fst G = Inr x)
       \<and> (\<forall>x. fst H = Inr \<lparr>content = [\<lparr>type = ''text'', text' = x\<rparr>], isError = True\<rparr>
              \<longleftrightarrow> (\<exists>err. fst G = Inl err \<and> message err = x))"
  using h g by (cases failed) (auto simp: text_result_def)

text \<open>
  Claim C3, as amended. For a valid URL with a derivable identifier the two conventions
  agree whenever the cache lookup is one that both functions read alike: it yields nothing
  (\<^verbatim>\<open>null\<close> or the empty string), or rejects with a message that does not start with
  \<^verbatim>\<open>Error:\<close>, or yields a string that starts with \<^verbatim>\<open>Error:\<close>, or yields a string that
  neither \<open>isLikelyError\<close> nor \<open>isCachedError\<close> takes for an error. Then the handler returns
  the text \<open>t\<close> with \<open>isError\<close> false exactly when \<^verbatim>\<open>getTranscript\<close> returns \<open>t\<close>, and returns
  \<open>t\<close> with \<open>isError\<close> true exactly when \<^verbatim>\<open>getTranscript\<close> throws an error whose message is
  \<open>t\<close>.

  The claim as stated, for every input, fails on an invalid URL: the handler's text carries
  the \<^verbatim>\<open>Error:\<close> marker and the thrown message does not, as the last run below shows.
\<close>

theorem conventions_agree_where_classified_alike:
  assumes "isValidYouTubeUrl d (url input)"
    and "extractVideoId d (normalizeYouTubeUrl d (url input)) = Some vid"
    and "vid \<noteq> []"
    and "classified_alike (getCachedTranscript d e st vid (language_default (language input)))"
  shows "(\<forall>t. fst (getTranscriptHandler d input e st) =
                Inr \<lparr>content = [\<lparr>type = ''text'', text' = t\<rparr>], isError = False\<rparr>
              \<longleftrightarrow> fst (getTranscript d (url input) e (language input) st) = Inr t)
       \<and> (\<forall>t. fst (getTranscriptHandler d input e st) =
                Inr \<lparr>content = [\<lparr>type = ''text'', text' = t\<rparr>], isError = True\<rparr>
              \<longleftrightarrow> (\<exists>err. fst (getTranscript d (url input) e (language input) st) = Inl err
                          \<and> message err = t))"
proof -
  let ?lang = "language_default (language input)"
  let ?H = "getTranscriptHandler d input e st"
  let ?G = "getTranscript d (url input) e (language input) st"
  note v = assms(1-3)
  show ?thesis
  proof (cases "getCachedTranscript d e st vid ?lang")
    case (Inl cacheError)
    with assms(4) have plain: "\<not> startsWith (message cacheError) ''Error:''"
      by (simp add: classified_alike_def)
    show ?thesis
      by (rule conventions_agree_on_miss
          [OF handler_fault(1) [OF v Inl] getTranscript_fault_swallowed(1) [OF v Inl plain]])
  next
    case (Inr c)
    show ?thesis
    proof (cases "truthy c")
      case False
      show ?thesis
        by (rule conventions_agree_on_miss
            [OF handler_absent(1) [OF v Inr False] getTranscript_absent(1) [OF v Inr False]])
    next
      case True
      then obtain s where c: "c = Some s" and s: "s \<noteq> []" by (cases c) auto
      from Inr c have hit: "getCachedTranscript d e st vid ?lang = Inr (Some s)" by simp
      from assms(4) hit s
      consider (marked) "startsWith s ''Error:''"
        | (success) "\<not> isLikelyError s" "\<not> isCachedError s"
        by (auto simp: classified_alike_def)
      then show ?thesis
      proof cases
        case marked
        then have "isLikelyError s" by (simp add: isLikelyError_def)
        then have H: "fst ?H = Inr (text_result s True)"
          by (simp add: handler_hit [OF v hit s])
        have G: "fst ?G = (if True then Inl (JsError ''Error'' s) else Inr s)"
          by (simp add: getTranscript_hit_marked_error [OF v hit marked])
        show ?thesis by (rule conventions_agree_on_miss [OF H G])
      next
        case success
        then have H: "fst ?H = Inr (text_result s False)"
          by (simp add: handler_hit [OF v hit s])
        have G: "fst ?G = (if False then Inl (JsError ''Error'' s) else Inr s)"
          by (simp add: getTranscript_hit_success [OF v hit s success(2)])
        show ?thesis by (rule conventions_agree_on_miss [OF H G])
      qed
    qed
  qed
qed

text \<open>
  A run on an empty store with a fetch that rejects: an error result on one side, an error
  thrown with the same text on the other.
\<close>

theorem conventions_agree_where_classified_alike_witness:
  "classified_alike (getCachedTranscript (spec_deps fetch_disabled generic_classifier) env_bound
      Map.empty ''abc123'' ''en'')
   \<and> fst (getTranscriptHandler (spec_deps fetch_disabled generic_classifier)
        \<lparr>url = ''https://youtu.be/abc123'', language = None\<rparr> env_bound Map.empty) =
       Inr \<lparr>content = [\<lparr>type = ''text'', text' = ''Error: captions are off''\<rparr>], isError = True\<rparr>
   \<and> (\<exists>err. fst (getTranscript (spec_deps fetch_disabled generic_classifier)
          ''https://youtu.be/abc123'' env_bound None Map.empty) = Inl err
        \<and> message err = ''Error: captions are off'')"
proof -
  let ?d = "spec_deps fetch_disabled generic_classifier"
  let ?i = "\<lparr>url = ''https://youtu.be/abc123'', language = None\<rparr>"
  have 1: "isValidYouTubeUrl ?d (url ?i)" by (simp add: url_example)
  have 2: "extractVideoId ?d (normalizeYouTubeUrl ?d (url ?i)) = Some ''abc123''"
    by (simp add: url_example)
  have 3: "''abc123'' \<noteq> []" by simp
  have r: "getCachedTranscript ?d env_bound Map.empty ''abc123'' (language_default (language ?i))
      = Inr None"
    by (simp add: kv_get_def)
  have 4: "classified_alike (getCachedTranscript ?d env_bound Map.empty ''abc123''
      (language_default (language ?i)))"
    by (simp only: r) (simp add: classified_alike_def)
  have 5: "\<not> truthy None" by simp
  have H: "fst (getTranscriptHandler ?d ?i env_bound Map.empty) =
      Inr \<lparr>content = [\<lparr>type = ''text'', text' = ''Error: captions are off''\<rparr>], isError = True\<rparr>"
    by (simp add: handler_absent(1) [OF 1 2 3 r 5] fetch_outcome_def fetch_disabled_def
        generic_classifier_def text_result_def)
  from conventions_agree_where_classified_alike [OF 1 2 3 4]
  have "fst (getTranscriptHandler ?d ?i env_bound Map.empty) =
          Inr \<lparr>content = [\<lparr>type = ''text'', text' = ''Error: captions are off''\<rparr>], isError = True\<rparr>
        \<longleftrightarrow> (\<exists>err. fst (getTranscript ?d (url ?i) env_bound (language ?i) Map.empty) = Inl err
               \<and> message err = ''Error: captions are off'')"
    by blast
  with H have G: "\<exists>err. fst (getTranscript ?d ''https://youtu.be/abc123'' env_bound None Map.empty)
      = Inl err \<and> message err = ''Error: captions are off''"
    by simp
  have c: "classified_alike (getCachedTranscript ?d env_bound Map.empty ''abc123'' ''en'')"
    using 4 by (simp add: language_default_def)
  from c H G show ?thesis by (intro conjI)
qed

text \<open>
  A run on a string that is no URL: the text of the handler is not the message thrown by
  \<^verbatim>\<open>getTranscript\<close>.
\<close>

theorem conventions_differ_on_invalid_url:
  "fst (getTranscriptHandler (spec_deps fetch_hello generic_classifier)
        \<lparr>url = ''not a url'', language = None\<rparr> env_bound Map.empty) =
     Inr \<lparr>content = [\<lparr>type = ''text'', text' = ''Error: Invalid YouTube URL provided.''\<rparr>],
          isError = True\<rparr>
   \<and> fst (getTranscript (spec_deps fetch_hello generic_classifier)
        ''not a url'' env_bound None Map.empty) =
     Inl (JsError ''Error'' ''Invalid YouTube URL provided.'')
   \<and> message (JsError ''Error'' ''Invalid YouTube URL provided.'')
       \<noteq> ''Error: Invalid YouTube URL provided.''"
proof -
  let ?d = "spec_deps fetch_hello generic_classifier"
  have h: "\<not> isValidYouTubeUrl ?d (url \<lparr>url = ''not a url'', language = None\<rparr>)"
    by (simp add: url_example_invalid)
  have g: "\<not> isValidYouTubeUrl ?d ''not a url''"
    by (simp add: url_example_invalid)
  show ?thesis
    by (simp add: handler_invalid [OF h] getTranscript_invalid [OF g] text_result_def)
qed

section \<open>The scenario of the short link\<close>

text \<open>
  Claim C9. With the URL Identifier and the store as the spec describes them: for the input
  \<^verbatim>\<open>https://youtu.be/abc123\<close> with the language omitted, the language defaults to
  \<^verbatim>\<open>en\<close> and the derived identifier is \<^verbatim>\<open>abc123\<close>; when the store holds nothing under
  (\<^verbatim>\<open>abc123\<close>, \<^verbatim>\<open>en\<close>) and the fetch returns \<^verbatim>\<open>Hello world.\<close>, the handler returns
  \<^verbatim>\<open>Hello world.\<close> with the error flag false, having fetched for (\<^verbatim>\<open>abc123\<close>, \<^verbatim>\<open>en\<close>),
  and the store afterwards holds \<^verbatim>\<open>Hello world.\<close> under that key. \<^verbatim>\<open>getTranscript\<close>
  defaults the language in the same way and returns the same text.
\<close>

theorem short_link_scenario:
  assumes "isValidYouTubeUrl d = url_isValid"
    and "normalizeYouTubeUrl d = url_normalize"
    and "extractVideoId d = url_extractId"
    and "getCachedTranscript d = kv_get"
    and "setCachedTranscript d = kv_set"
    and "st (''abc123'', ''en'') = None"
    and "fetchTranscriptFromYouTube d ''abc123'' ''en'' = Inr ''Hello world.''"
  shows "language_default None = ''en''
       \<and> url_extractId (url_normalize ''https://youtu.be/abc123'') = Some ''abc123''
       \<and> fst (getTranscriptHandler d \<lparr>url = ''https://youtu.be/abc123'', language = None\<rparr> e st) =
           Inr \<lparr>content = [\<lparr>type = ''text'', text' = ''Hello world.''\<rparr>], isError = False\<rparr>
       \<and> fetch_calls (snd (snd (getTranscriptHandler d
             \<lparr>url = ''https://youtu.be/abc123'', language = None\<rparr> e st))) =
           [CallFetchTranscriptFromYouTube ''abc123'' ''en'']
       \<and> fst (snd (getTranscriptHandler d
             \<lparr>url = ''https://youtu.be/abc123'', language = None\<rparr> e st)) (''abc123'', ''en'') =
           Some ''Hello world.''
       \<and> fst (getTranscript d ''https://youtu.be/abc123'' e None st) = Inr ''Hello world.''
       \<and> fetch_calls (snd (snd (getTranscript d ''https://youtu.be/abc123'' e None st))) =
           [CallFetchTranscriptFromYouTube ''abc123'' ''en'']"
proof -
  let ?i = "\<lparr>url = ''https://youtu.be/abc123'', language = None\<rparr>"
  have en: "language_default None = ''en''" by (simp add: language_default_def)
  have 1: "isValidYouTubeUrl d (url ?i)" by (simp add: assms(1) url_example)
  have 2: "extractVideoId d (normalizeYouTubeUrl d (url ?i)) = Some ''abc123''"
    by (simp add: assms(2,3) url_example)
  have 3: "''abc123'' \<noteq> []" by simp
  have 4: "getCachedTranscript d e st ''abc123'' (language_default (language ?i)) = Inr None"
    by (simp add: assms(4,6) kv_get_def en)
  have 5: "\<not> truthy None" by simp
  have g1: "isValidYouTubeUrl d ''https://youtu.be/abc123''" by (simp add: assms(1) url_example)
  have g2: "extractVideoId d (normalizeYouTubeUrl d ''https://youtu.be/abc123'') = Some ''abc123''"
    by (simp add: assms(2,3) url_example)
  have g4: "getCachedTranscript d e st ''abc123'' (language_default None) = Inr None"
    by (simp add: assms(4,6) kv_get_def en)
  have out: "fetch_outcome d ''abc123'' ''en'' = (''Hello world.'', False)"
    by (simp add: fetch_outcome_def assms(7))
  have id: "url_extractId (url_normalize ''https://youtu.be/abc123'') = Some ''abc123''"
    by (simp add: url_example)
  show ?thesis
    by (simp add: handler_absent [OF 1 2 3 4 5] getTranscript_absent [OF g1 g2 3 g4 5]
        en id out assms(5) kv_set_def text_result_def)
qed

text \<open>
  The scenario on the collaborators of the spec, with an empty store.
\<close>

theorem short_link_scenario_witness:
  "fst (getTranscriptHandler (spec_deps fetch_hello generic_classifier)
        \<lparr>url = ''https://youtu.be/abc123'', language = None\<rparr> env_bound Map.empty) =
     Inr \<lparr>content = [\<lparr>type = ''text'', text' = ''Hello world.''\<rparr>], isError = False\<rparr>
   \<and> fst (snd (getTranscriptHandler (spec_deps fetch_hello generic_classifier)
        \<lparr>url = ''https://youtu.be/abc123'', language = None\<rparr> env_bound Map.empty))
       (''abc123'', ''en'') = Some ''Hello world.''"
proof -
  let ?d = "spec_deps fetch_hello generic_classifier"
  have a: "isValidYouTubeUrl ?d = url_isValid" "normalizeYouTubeUrl ?d = url_normalize"
    "extractVideoId ?d = url_extractId" "getCachedTranscript ?d = kv_get"
    "setCachedTranscript ?d = kv_set"
    by simp_all
  have b: "(Map.empty :: kv) (''abc123'', ''en'') = None" by simp
  have c: "fetchTranscriptFromYouTube ?d ''abc123'' ''en'' = Inr ''Hello world.''"
    by (simp add: fetch_hello_def)
  show ?thesis
    using short_link_scenario [OF a b c, of env_bound] by simp
qed

end
